theory Spec2Isabelle
  imports Main "HOL-Library.Word"
begin

unbundle bit_operations_syntax

section \<open>C integer types and arithmetic\<close>

text \<open>
  The driver is C++ compiled for a platform with 32-bit \<open>int\<close>. Values of type
  \<open>uint8_t\<close>, \<open>uint16_t\<close> and \<open>uint64_t\<close> are words; the arithmetic inside the
  translator functions is done by C in \<open>int\<close> after integer promotion, so the model
  computes on \<open>int\<close> and writes out every conversion back to a 16-bit variable.
\<close>

type_synonym uint8_t = "8 word"
type_synonym uint16_t = "16 word"
type_synonym uint32_t = "32 word"
type_synonym uint64_t = "64 word"

text \<open>Storing an \<open>int\<close> into an \<open>int16_t\<close> variable keeps the low 16 bits, read as two's complement.\<close>

definition int16_t :: "int \<Rightarrow> int" where
  "int16_t x = signed_take_bit 15 x"

text \<open>Storing an \<open>int\<close> into a \<open>uint16_t\<close> variable keeps the low 16 bits, read as unsigned.\<close>

definition to_uint16_t :: "int \<Rightarrow> int" where
  "to_uint16_t x = take_bit 16 x"

text \<open>The C operator \<open>/\<close> on \<open>int\<close> truncates towards zero (HOL's \<open>div\<close> rounds down).\<close>

definition c_div :: "int \<Rightarrow> int \<Rightarrow> int" where
  "c_div a b = (if (a < 0) = (b < 0) then \<bar>a\<bar> div \<bar>b\<bar> else - (\<bar>a\<bar> div \<bar>b\<bar>))"

section \<open>Protocol constants (BigbenProtocol.h, InputTranslator.h)\<close>

definition BIGBEN_REPORT_ID_INPUT :: uint8_t where
  "BIGBEN_REPORT_ID_INPUT = 0x01"

definition BIGBEN_REPORT_ID_RUMBLE :: uint8_t where
  "BIGBEN_REPORT_ID_RUMBLE = 0x02"

definition BIGBEN_DPAD_NEUTRAL :: uint8_t where
  "BIGBEN_DPAD_NEUTRAL = 8"

definition INPUT_TRANSLATOR_AXIS_CENTER :: int where
  "INPUT_TRANSLATOR_AXIS_CENTER = 128"

definition INPUT_TRANSLATOR_AXIS_MIN :: int where
  "INPUT_TRANSLATOR_AXIS_MIN = 0"

definition INPUT_TRANSLATOR_AXIS_MAX :: int where
  "INPUT_TRANSLATOR_AXIS_MAX = 255"

definition INPUT_TRANSLATOR_HAT_NEUTRAL :: uint8_t where
  "INPUT_TRANSLATOR_HAT_NEUTRAL = 8"

section \<open>InputTranslator (InputTranslator.cpp)\<close>

text \<open>\<open>InputTranslator::translateButtons\<close>: mask to the 13 active buttons.\<close>

definition translateButtons :: "uint16_t \<Rightarrow> uint16_t" where
  "translateButtons bigbenButtons = bigbenButtons AND 0x1FFF"

text \<open>\<open>InputTranslator::translateDPadToHat\<close>: a value above the neutral code is treated as neutral.\<close>

definition translateDPadToHat :: "uint8_t \<Rightarrow> uint8_t" where
  "translateDPadToHat dpad =
     (if dpad > BIGBEN_DPAD_NEUTRAL then INPUT_TRANSLATOR_HAT_NEUTRAL else dpad)"

text \<open>
  \<open>InputTranslator::applyDeadzone\<close>. The source keeps \<open>offset\<close>, \<open>maxRange\<close>,
  \<open>activeRange\<close>, \<open>adjusted\<close> and \<open>result\<close> in \<open>int16_t\<close> variables; \<open>value\<close> and
  \<open>deadzone\<close> are promoted to \<open>int\<close> wherever they are used, so \<open>-deadzone\<close> is a
  negative \<open>int\<close>. \<open>scale_offset\<close> is the body of the block guarded by
  \<open>deadzone > 0 && deadzone < 128\<close>, which overwrites \<open>offset\<close> when the active
  range is positive.
\<close>

definition scale_offset :: "int \<Rightarrow> int \<Rightarrow> int" where
  "scale_offset offset deadzone =
     (let maxRange = int16_t 127;
          activeRange = int16_t (maxRange - deadzone)
      in if activeRange > 0
         then (if offset > 0
               then (let adjusted = int16_t (offset - deadzone)
                     in int16_t (c_div (adjusted * maxRange) activeRange))
               else (let adjusted = int16_t (offset + deadzone)
                     in int16_t (c_div (adjusted * maxRange) activeRange)))
         else offset)"

definition applyDeadzone :: "uint8_t \<Rightarrow> uint8_t \<Rightarrow> uint8_t" where
  "applyDeadzone value deadzone =
     (let offset = int16_t (uint value - INPUT_TRANSLATOR_AXIS_CENTER)
      in if offset > - uint deadzone \<and> offset < uint deadzone
         then word_of_int INPUT_TRANSLATOR_AXIS_CENTER
         else (let offset2 = (if uint deadzone > 0 \<and> uint deadzone < 128
                              then scale_offset offset (uint deadzone)
                              else offset);
                   result = int16_t (offset2 + INPUT_TRANSLATOR_AXIS_CENTER)
               in if result < INPUT_TRANSLATOR_AXIS_MIN
                  then word_of_int INPUT_TRANSLATOR_AXIS_MIN
                  else if result > INPUT_TRANSLATOR_AXIS_MAX
                  then word_of_int INPUT_TRANSLATOR_AXIS_MAX
                  else word_of_int result))"

text \<open>
  \<open>InputTranslator::applyTriggerDeadzone\<close>. \<open>activeRange\<close>, \<open>adjusted\<close> and \<open>scaled\<close>
  are \<open>uint16_t\<close> variables; the products and quotients are computed in \<open>int\<close>.
\<close>

definition applyTriggerDeadzone :: "uint8_t \<Rightarrow> uint8_t \<Rightarrow> uint8_t" where
  "applyTriggerDeadzone value deadzone =
     (if uint value < uint deadzone then 0
      else if uint deadzone > 0 \<and> uint deadzone < 255
      then (let activeRange = to_uint16_t (255 - uint deadzone);
                adjusted = to_uint16_t (uint value - uint deadzone);
                scaled = to_uint16_t (c_div (adjusted * 255) activeRange)
            in if scaled > 255 then 255 else word_of_int scaled)
      else value)"

section \<open>Status codes\<close>

text \<open>
  \<open>kern_return_t\<close>/\<open>IOReturn\<close> values. The numeric values live in the system headers;
  the driver only ever compares a status with the named constants below, so each
  constant is a constructor and \<open>kIOReturnOther c\<close> stands for any other code \<open>c\<close>.
\<close>

datatype IOReturn =
    kIOReturnSuccess
  | kIOReturnAborted
  | kIOReturnNotResponding
  | kIOReturnNotReady
  | kIOReturnNotFound
  | kIOReturnNotAttached
  | kIOReturnNoMemory
  | kIOReturnInternalError
  | kIOReturnOther uint32_t

section \<open>Output frames (BigbenProtocol.h, BigbenHIDDevice.cpp)\<close>

text \<open>\<open>BigbenRumbleReport\<close>, a packed struct of 8 bytes.\<close>

record BigbenRumbleReport =
  reportId :: uint8_t
  reserved1 :: uint8_t
  rightMotorOn :: uint8_t
  leftMotorForce :: uint8_t
  duration :: uint8_t
  padding :: "uint8_t list"

text \<open>The bytes of the struct in memory order (\<open>#pragma pack(push, 1)\<close>: no gaps).\<close>

definition BigbenRumbleReport_bytes :: "BigbenRumbleReport \<Rightarrow> uint8_t list" where
  "BigbenRumbleReport_bytes r =
     [BigbenRumbleReport.reportId r, reserved1 r, rightMotorOn r, leftMotorForce r, duration r]
     @ padding r"

text \<open>
  \<open>BigbenHIDDevice::sendRumbleToUSB(leftMotor, rightMotor)\<close>. The first argument of the
  model says whether \<open>ivars\<close> and \<open>ivars->usbDriver\<close> are both non-null. The source
  builds the frame in the local variable \<open>rumbleReport\<close> and returns only the status
  (the call that would transmit the frame is still a TODO in the source); the model
  returns the local as well, \<open>None\<close> when the function returns before building it.
\<close>

definition sendRumbleToUSB ::
  "bool \<Rightarrow> uint8_t \<Rightarrow> uint8_t \<Rightarrow> IOReturn \<times> BigbenRumbleReport option" where
  "sendRumbleToUSB usbDriver leftMotor rightMotor =
     (if \<not> usbDriver then (kIOReturnNotReady, None)
      else (kIOReturnSuccess,
            Some \<lparr>reportId = BIGBEN_REPORT_ID_RUMBLE,
                  reserved1 = 0x08,
                  rightMotorOn = (if rightMotor > 0 then 1 else 0),
                  leftMotorForce = leftMotor,
                  duration = 0xFF,
                  padding = [0, 0, 0]\<rparr>))"

section \<open>The USB driver's polling cycle (BigbenUSBDriver.cpp)\<close>

text \<open>\<open>BigbenInputReport\<close>, the packed 64-byte input report (\<open>reserved\<close> holds 54 bytes).\<close>

record BigbenInputReport =
  reportId :: uint8_t
  leftStickX :: uint8_t
  leftStickY :: uint8_t
  rightStickX :: uint8_t
  rightStickY :: uint8_t
  dpad :: uint8_t
  buttons :: uint16_t
  leftTrigger :: uint8_t
  rightTrigger :: uint8_t
  reserved :: "uint8_t list"

definition sizeof_BigbenInputReport :: nat where
  "sizeof_BigbenInputReport = 64"

text \<open>
  \<open>BigbenUSBDriver_IVars\<close>. A pointer field is \<open>True\<close> when it holds an object and
  \<open>False\<close> when it is \<open>nullptr\<close>. The three counters are \<open>uint64_t\<close>: \<open>++\<close> wraps.
\<close>

record BigbenUSBDriver_IVars =
  interface :: bool
  inputPipe :: bool
  outputPipe :: bool
  inputBuffer :: bool
  outputBuffer :: bool
  hidDescriptor :: bool
  readAction :: bool
  writeAction :: bool
  isStarted :: bool
  isPolling :: bool
  deviceConnected :: bool
  lastReport :: BigbenInputReport
  hasLastReport :: bool
  reportsReceived :: uint64_t
  reportErrors :: uint64_t
  outputReportsSent :: uint64_t

text \<open>
  What the driver asks of its collaborators, in call order: a read armed on the input
  pipe (\<open>inputPipe->AsyncIO(inputBuffer, kBigbenInputReportSize, readAction, 0)\<close>), an
  abort of the input pipe, and a report handed to the HID layer
  (\<open>handleReport(timestamp, inputBuffer, actualByteCount, kIOHIDReportTypeInput, 0)\<close>,
  recorded with the timestamp, the buffer's content and the length).
\<close>

datatype io_call =
    AsyncIO_read
  | Abort_read
  | handleReport uint64_t BigbenInputReport uint32_t

text \<open>\<open>BigbenUSBDriver::init\<close>: \<open>IONewZero\<close> zeroes the struct, then every field is reset.\<close>

definition zero_report :: BigbenInputReport where
  "zero_report =
     \<lparr>reportId = 0, leftStickX = 0, leftStickY = 0, rightStickX = 0, rightStickY = 0,
      dpad = 0, buttons = 0, leftTrigger = 0, rightTrigger = 0, reserved = replicate 54 0\<rparr>"

definition init :: BigbenUSBDriver_IVars where
  "init =
     \<lparr>interface = False, inputPipe = False, outputPipe = False, inputBuffer = False,
      outputBuffer = False, hidDescriptor = False, readAction = False, writeAction = False,
      isStarted = False, isPolling = False, deviceConnected = False,
      lastReport = zero_report, hasLastReport = False,
      reportsReceived = 0, reportErrors = 0, outputReportsSent = 0\<rparr>"

text \<open>
  What the system answers during \<open>Start\<close>. A call that creates an object answers with
  its status and with whether the out-parameter holds an object afterwards.
\<close>

record start_env =
  super_Start :: IOReturn
  provider_is_interface :: bool
  interface_Open :: IOReturn
  CopyPipe_in :: "IOReturn \<times> bool"
  Create_inputBuffer :: "IOReturn \<times> bool"
  CreateActionReadComplete :: "IOReturn \<times> bool"
  CopyPipe_out :: "IOReturn \<times> bool"
  Create_outputBuffer :: "IOReturn \<times> bool"
  CreateActionWriteComplete :: "IOReturn \<times> bool"
  Create_hidDescriptor :: "IOReturn \<times> bool"
  hidDescriptor_is_buffer :: bool
  hidDescriptor_Map :: IOReturn
  first_AsyncIO :: IOReturn

definition ConfigureDevice :: "BigbenUSBDriver_IVars \<Rightarrow> IOReturn" where
  "ConfigureDevice s = (if \<not> interface s then kIOReturnNotAttached else kIOReturnSuccess)"

definition OpenInterface :: "start_env \<Rightarrow> BigbenUSBDriver_IVars \<Rightarrow> IOReturn" where
  "OpenInterface env s =
     (if \<not> interface s then kIOReturnNotAttached
      else if interface_Open env \<noteq> kIOReturnSuccess then interface_Open env
      else kIOReturnSuccess)"

definition SetupInterruptInEndpoint ::
  "start_env \<Rightarrow> BigbenUSBDriver_IVars \<Rightarrow> IOReturn \<times> BigbenUSBDriver_IVars" where
  "SetupInterruptInEndpoint env s =
     (if \<not> interface s then (kIOReturnNotAttached, s)
      else
        let (ret1, pipe) = CopyPipe_in env; s1 = s\<lparr>inputPipe := pipe\<rparr> in
        if ret1 \<noteq> kIOReturnSuccess \<or> \<not> inputPipe s1
        then (if ret1 \<noteq> kIOReturnSuccess then ret1 else kIOReturnNotFound, s1)
        else
          let (ret2, buf) = Create_inputBuffer env; s2 = s1\<lparr>inputBuffer := buf\<rparr> in
          if ret2 \<noteq> kIOReturnSuccess \<or> \<not> inputBuffer s2
          then (if ret2 \<noteq> kIOReturnSuccess then ret2 else kIOReturnNoMemory, s2)
          else
            let (ret3, act) = CreateActionReadComplete env; s3 = s2\<lparr>readAction := act\<rparr> in
            if ret3 \<noteq> kIOReturnSuccess \<or> \<not> readAction s3
            then (if ret3 \<noteq> kIOReturnSuccess then ret3 else kIOReturnNoMemory, s3)
            else (kIOReturnSuccess, s3))"

text \<open>The output endpoint is optional: without an output pipe the set-up still succeeds.\<close>

definition SetupInterruptOutEndpoint ::
  "start_env \<Rightarrow> BigbenUSBDriver_IVars \<Rightarrow> IOReturn \<times> BigbenUSBDriver_IVars" where
  "SetupInterruptOutEndpoint env s =
     (if \<not> interface s then (kIOReturnNotAttached, s)
      else
        let (ret1, pipe) = CopyPipe_out env; s1 = s\<lparr>outputPipe := pipe\<rparr> in
        if ret1 \<noteq> kIOReturnSuccess \<or> \<not> outputPipe s1
        then (kIOReturnSuccess, s1)
        else
          let (ret2, buf) = Create_outputBuffer env; s2 = s1\<lparr>outputBuffer := buf\<rparr> in
          if ret2 \<noteq> kIOReturnSuccess \<or> \<not> outputBuffer s2
          then (if ret2 \<noteq> kIOReturnSuccess then ret2 else kIOReturnNoMemory, s2)
          else
            let (ret3, act) = CreateActionWriteComplete env; s3 = s2\<lparr>writeAction := act\<rparr> in
            if ret3 \<noteq> kIOReturnSuccess \<or> \<not> writeAction s3
            then (if ret3 \<noteq> kIOReturnSuccess then ret3 else kIOReturnNoMemory, s3)
            else (kIOReturnSuccess, s3))"

definition CreateHIDReportDescriptor ::
  "start_env \<Rightarrow> BigbenUSBDriver_IVars \<Rightarrow> IOReturn \<times> BigbenUSBDriver_IVars" where
  "CreateHIDReportDescriptor env s =
     (let (ret1, desc) = Create_hidDescriptor env; s1 = s\<lparr>hidDescriptor := desc\<rparr> in
      if ret1 \<noteq> kIOReturnSuccess \<or> \<not> hidDescriptor s1
      then (if ret1 \<noteq> kIOReturnSuccess then ret1 else kIOReturnNoMemory, s1)
      else if \<not> hidDescriptor_is_buffer env then (kIOReturnInternalError, s1)
      else if hidDescriptor_Map env \<noteq> kIOReturnSuccess then (hidDescriptor_Map env, s1)
      else (kIOReturnSuccess, s1))"

text \<open>
  \<open>BigbenUSBDriver::StartInputPolling\<close>; the first argument is the answer of the pipe
  to the \<open>AsyncIO\<close> call, if that call is reached.
\<close>

definition StartInputPolling ::
  "IOReturn \<Rightarrow> BigbenUSBDriver_IVars \<Rightarrow> IOReturn \<times> BigbenUSBDriver_IVars \<times> io_call list" where
  "StartInputPolling asyncio s =
     (if \<not> inputPipe s \<or> \<not> inputBuffer s \<or> \<not> readAction s then (kIOReturnNotReady, s, [])
      else if isPolling s then (kIOReturnSuccess, s, [])
      else if asyncio \<noteq> kIOReturnSuccess then (asyncio, s, [AsyncIO_read])
      else (kIOReturnSuccess, s\<lparr>isPolling := True\<rparr>, [AsyncIO_read]))"

text \<open>
  \<open>BigbenUSBDriver::Start\<close>, run on the instance variables that \<open>init\<close> allocated
  (so \<open>ivars\<close> is not null). On each failure the source also calls the parent
  class's \<open>Stop\<close>, which does not touch the instance variables.
\<close>

definition Start ::
  "start_env \<Rightarrow> BigbenUSBDriver_IVars \<Rightarrow> IOReturn \<times> BigbenUSBDriver_IVars \<times> io_call list" where
  "Start env s =
     (if super_Start env \<noteq> kIOReturnSuccess then (super_Start env, s, [])
      else
        let s1 = s\<lparr>interface := provider_is_interface env\<rparr> in
        if \<not> interface s1 then (kIOReturnNotFound, s1, [])
        else if ConfigureDevice s1 \<noteq> kIOReturnSuccess then (ConfigureDevice s1, s1, [])
        else if OpenInterface env s1 \<noteq> kIOReturnSuccess then (OpenInterface env s1, s1, [])
        else
          let (ret2, s2) = SetupInterruptInEndpoint env s1 in
          if ret2 \<noteq> kIOReturnSuccess then (ret2, s2, [])
          else
            let (ret3, s3) = SetupInterruptOutEndpoint env s2 in
            if ret3 \<noteq> kIOReturnSuccess then (ret3, s3, [])
            else
              let (ret4, s4) = CreateHIDReportDescriptor env s3 in
              if ret4 \<noteq> kIOReturnSuccess then (ret4, s4, [])
              else
                let (ret5, s5, calls) = StartInputPolling (first_AsyncIO env) s4 in
                if ret5 \<noteq> kIOReturnSuccess then (ret5, s5, calls)
                else (kIOReturnSuccess, s5\<lparr>isStarted := True, deviceConnected := True\<rparr>, calls))"

text \<open>\<open>BigbenUSBDriver::StopInputPolling\<close>. Its only caller is \<open>Stop\<close>.\<close>

definition StopInputPolling ::
  "BigbenUSBDriver_IVars \<Rightarrow> BigbenUSBDriver_IVars \<times> io_call list" where
  "StopInputPolling s =
     (if \<not> isPolling s then (s, [])
      else (s\<lparr>isPolling := False\<rparr>, if inputPipe s then [Abort_read] else []))"

text \<open>
  \<open>BigbenUSBDriver::CleanupResources\<close>: every object still held is released (the
  interface is closed first) and its pointer is set to \<open>nullptr\<close>.
\<close>

definition CleanupResources :: "BigbenUSBDriver_IVars \<Rightarrow> BigbenUSBDriver_IVars" where
  "CleanupResources s =
     s\<lparr>readAction := False, writeAction := False, inputBuffer := False,
       outputBuffer := False, hidDescriptor := False, inputPipe := False,
       outputPipe := False, interface := False\<rparr>"

text \<open>
  \<open>BigbenUSBDriver::Stop\<close>: it clears \<open>isStarted\<close> and \<open>deviceConnected\<close>, stops the
  polling, releases the resources and then returns what the parent class's \<open>Stop\<close>
  answers (the first argument of the model).
\<close>

definition Stop ::
  "IOReturn \<Rightarrow> BigbenUSBDriver_IVars \<Rightarrow> IOReturn \<times> BigbenUSBDriver_IVars \<times> io_call list" where
  "Stop super_Stop s =
     (let s1 = s\<lparr>isStarted := False, deviceConnected := False\<rparr>;
          (s2, calls) = StopInputPolling s1;
          s3 = CleanupResources s2
      in (super_Stop, s3, calls))"

text \<open>
  \<open>BigbenUSBDriver::ParseInputReport(data, length)\<close>. \<open>data\<close> points at the mapped
  64-byte input buffer, read through the packed struct.
\<close>

definition ParseInputReport ::
  "BigbenInputReport \<Rightarrow> nat \<Rightarrow> BigbenUSBDriver_IVars \<Rightarrow> BigbenUSBDriver_IVars" where
  "ParseInputReport data len s =
     (if len < sizeof_BigbenInputReport then s
      else if BigbenInputReport.reportId data \<noteq> BIGBEN_REPORT_ID_INPUT then s
      else s\<lparr>lastReport := data, hasLastReport := True\<rparr>)"

text \<open>
  What the system answers while one read completion is handled: the content of the
  input buffer, the answer of \<open>inputBuffer->Map\<close> (status and address), the value of
  \<open>mach_absolute_time()\<close>, and the answer of the pipe to the next \<open>AsyncIO\<close>.
\<close>

record read_env =
  buffer :: BigbenInputReport
  Map_ret :: IOReturn
  Map_address :: uint64_t
  timestamp :: uint64_t
  AsyncIO_ret :: IOReturn

text \<open>
  \<open>ReadComplete\<close> calls \<open>ivars->inputBuffer->Map\<close> and \<open>ivars->inputPipe->AsyncIO\<close>
  without a null check. A call through a pointer that is \<open>nullptr\<close> ends the handler
  with a fault instead of a result.
\<close>

datatype fault = NullPointerDereference

text \<open>
  The block that queues the next read. The source has it twice in \<open>ReadComplete\<close>, after
  an error status and at the end, guarded both times by
  \<open>ivars->isPolling && ivars->deviceConnected\<close>.
\<close>

definition queue_next_read ::
  "read_env \<Rightarrow> BigbenUSBDriver_IVars \<Rightarrow> fault + BigbenUSBDriver_IVars \<times> io_call list" where
  "queue_next_read env s =
     (if isPolling s \<and> deviceConnected s
      then (if \<not> inputPipe s then Inl NullPointerDereference
            else if AsyncIO_ret env \<noteq> kIOReturnSuccess
            then Inr (s\<lparr>isPolling := False\<rparr>, [AsyncIO_read])
            else Inr (s, [AsyncIO_read]))
      else Inr (s, []))"

text \<open>
  The part of \<open>ReadComplete\<close> that validates the size of a successful read and, for a
  full-size one, maps the buffer, parses, counts and forwards the report.
\<close>

definition process_read ::
  "read_env \<Rightarrow> uint32_t \<Rightarrow> BigbenUSBDriver_IVars
     \<Rightarrow> fault + BigbenUSBDriver_IVars \<times> io_call list" where
  "process_read env actualByteCount s =
     (if unat actualByteCount < sizeof_BigbenInputReport
      then Inr (s\<lparr>reportErrors := reportErrors s + 1\<rparr>, [])
      else if \<not> inputBuffer s then Inl NullPointerDereference
      else if Map_ret env = kIOReturnSuccess \<and> Map_address env \<noteq> 0
      then (let s2 = ParseInputReport (buffer env) (unat actualByteCount) s;
                s3 = s2\<lparr>reportsReceived := reportsReceived s2 + 1\<rparr>
            in Inr (s3, [handleReport (timestamp env) (buffer env) actualByteCount]))
      else Inr (s, []))"

text \<open>
  \<open>BigbenUSBDriver::ReadComplete(action, status, actualByteCount)\<close>. The result is the
  new instance variables with the calls made, or the fault that ended the handler.
\<close>

definition ReadComplete ::
  "read_env \<Rightarrow> IOReturn \<Rightarrow> uint32_t \<Rightarrow> BigbenUSBDriver_IVars
     \<Rightarrow> fault + BigbenUSBDriver_IVars \<times> io_call list" where
  "ReadComplete env status actualByteCount s =
     (if status = kIOReturnAborted \<or> status = kIOReturnNotResponding then Inr (s, [])
      else if status \<noteq> kIOReturnSuccess
      then queue_next_read env (s\<lparr>reportErrors := reportErrors s + 1\<rparr>)
      else
        (case process_read env actualByteCount s of
           Inl f \<Rightarrow> Inl f
         | Inr (s1, calls1) \<Rightarrow>
             (case queue_next_read env s1 of
                Inl f \<Rightarrow> Inl f
              | Inr (s4, calls2) \<Rightarrow> Inr (s4, calls1 @ calls2))))"

section \<open>Sample inputs\<close>

text \<open>A system in which every call of \<open>Start\<close> succeeds and every object is created.\<close>

definition all_ok_start_env :: start_env where
  "all_ok_start_env =
     \<lparr>super_Start = kIOReturnSuccess, provider_is_interface = True,
      interface_Open = kIOReturnSuccess,
      CopyPipe_in = (kIOReturnSuccess, True),
      Create_inputBuffer = (kIOReturnSuccess, True),
      CreateActionReadComplete = (kIOReturnSuccess, True),
      CopyPipe_out = (kIOReturnSuccess, True),
      Create_outputBuffer = (kIOReturnSuccess, True),
      CreateActionWriteComplete = (kIOReturnSuccess, True),
      Create_hidDescriptor = (kIOReturnSuccess, True),
      hidDescriptor_is_buffer = True,
      hidDescriptor_Map = kIOReturnSuccess,
      first_AsyncIO = kIOReturnSuccess\<rparr>"

text \<open>The instance variables after \<open>init\<close> and a successful \<open>Start\<close>.\<close>

definition started_ivars :: BigbenUSBDriver_IVars where
  "started_ivars = fst (snd (Start all_ok_start_env init))"

text \<open>A neutral input report with the given report identifier.\<close>

definition neutral_input :: "uint8_t \<Rightarrow> BigbenInputReport" where
  "neutral_input rid =
     \<lparr>reportId = rid, leftStickX = 128, leftStickY = 128, rightStickX = 128,
      rightStickY = 128, dpad = 8, buttons = 0, leftTrigger = 0, rightTrigger = 0,
      reserved = replicate 54 0\<rparr>"

text \<open>
  A completion environment: the buffer holds a neutral report with the given identifier,
  the buffer maps, and the pipe accepts the next read.
\<close>

definition sample_read_env :: "uint8_t \<Rightarrow> read_env" where
  "sample_read_env rid =
     \<lparr>buffer = neutral_input rid, Map_ret = kIOReturnSuccess, Map_address = 0x1000,
      timestamp = 42, AsyncIO_ret = kIOReturnSuccess\<rparr>"

text \<open>The instance variables after \<open>init\<close>, a successful \<open>Start\<close> and then \<open>Stop\<close>.\<close>

definition stopped_ivars :: BigbenUSBDriver_IVars where
  "stopped_ivars = fst (snd (Stop kIOReturnSuccess started_ivars))"

section \<open>Facts about the integer helpers\<close>

lemmas translator_consts =
  INPUT_TRANSLATOR_AXIS_CENTER_def INPUT_TRANSLATOR_AXIS_MIN_def INPUT_TRANSLATOR_AXIS_MAX_def
  INPUT_TRANSLATOR_HAT_NEUTRAL_def BIGBEN_DPAD_NEUTRAL_def

lemma int16_t_id: "- 32768 \<le> x \<Longrightarrow> x < 32768 \<Longrightarrow> int16_t x = x"
  by (simp add: int16_t_def signed_take_bit_int_eq_self)

lemma c_div_self_mult: "0 < a \<Longrightarrow> 0 \<le> b \<Longrightarrow> c_div (a * b) a = b"
  by (simp add: c_div_def abs_mult mult_less_0_iff)

section \<open>Stick deadzone: the physical extremes\<close>

text \<open>At full positive deflection the rescaled offset is again 127.\<close>

lemma scale_offset_max:
  assumes "0 < d" "d < 127"
  shows "scale_offset 127 d = 127"
proof -
  have "c_div ((127 - d) * 127) (127 - d) = 127"
    using assms by (intro c_div_self_mult) simp_all
  then show ?thesis
    using assms by (simp add: scale_offset_def int16_t_id Let_def)
qed

text \<open>
  At full negative deflection the rescaled offset is \<open>-((128 - d) * 127 div (127 - d))\<close>,
  which is at most \<open>-128\<close> and fits an \<open>int16_t\<close>.
\<close>

lemma scale_offset_min:
  assumes "0 < d" "d < 127"
  shows "scale_offset (- 128) d \<le> - 128" "- 32768 \<le> scale_offset (- 128) d"
proof -
  let ?q = "((128 - d) * 127) div (127 - d)"
  have cd: "c_div ((- 128 + d) * 127) (127 - d) = - ?q"
    using assms by (simp add: c_div_def algebra_simps)
  have e: "(128 * (127 - d)) div (127 - d) = 128"
    by (rule nonzero_mult_div_cancel_right) (use assms in simp)
  have "128 * (127 - d) \<le> (128 - d) * 127"
    using assms by (simp add: algebra_simps)
  then have "(128 * (127 - d)) div (127 - d) \<le> ?q"
    using assms by (intro zdiv_mono1) simp_all
  then have lo: "128 \<le> ?q"
    unfolding e .
  have "?q \<le> ((128 - d) * 127) div 1"
    by (rule zdiv_mono2) (use assms in simp_all)
  then have hi: "?q \<le> 16256" using assms by simp
  have so: "scale_offset (- 128) d = - ?q"
    using assms lo hi cd by (simp add: scale_offset_def int16_t_id Let_def)
  show "scale_offset (- 128) d \<le> - 128" using so lo by simp
  show "- 32768 \<le> scale_offset (- 128) d" using so hi by simp
qed

lemma applyDeadzone_max:
  assumes "dz \<le> 127"
  shows "applyDeadzone 255 dz = 255"
proof -
  have d: "0 \<le> uint dz" "uint dz \<le> 127"
    using assms by (simp_all add: word_le_def)
  have off: "int16_t (uint (255 :: uint8_t) - INPUT_TRANSLATOR_AXIS_CENTER) = 127"
    by (simp add: translator_consts int16_t_id)
  have sc: "(if uint dz > 0 \<and> uint dz < 128 then scale_offset 127 (uint dz) else 127) = 127"
  proof (cases "uint dz = 127")
    case True
    then show ?thesis by (simp add: scale_offset_def int16_t_id)
  next
    case False
    then show ?thesis using d scale_offset_max [of "uint dz"] by simp
  qed
  show ?thesis
    unfolding applyDeadzone_def off Let_def sc
    using d by (simp add: translator_consts int16_t_id)
qed

lemma applyDeadzone_min:
  assumes "dz \<le> 127"
  shows "applyDeadzone 0 dz = 0"
proof -
  have d: "0 \<le> uint dz" "uint dz \<le> 127"
    using assms by (simp_all add: word_le_def)
  have off: "int16_t (uint (0 :: uint8_t) - INPUT_TRANSLATOR_AXIS_CENTER) = - 128"
    by (simp add: translator_consts int16_t_id)
  define o2 where
    "o2 = (if uint dz > 0 \<and> uint dz < 128 then scale_offset (- 128) (uint dz) else - 128)"
  have sc: "o2 \<le> - 128 \<and> - 32768 \<le> o2"
  proof (cases "uint dz = 127 \<or> uint dz = 0")
    case True
    then show ?thesis by (auto simp: o2_def scale_offset_def int16_t_id)
  next
    case False
    then show ?thesis using d scale_offset_min [of "uint dz"] by (simp add: o2_def)
  qed
  then have res: "int16_t (o2 + INPUT_TRANSLATOR_AXIS_CENTER) \<le> 0"
    by (simp add: translator_consts int16_t_id)
  show ?thesis
    unfolding applyDeadzone_def off Let_def o2_def [symmetric]
    using d res by (auto simp: translator_consts)
qed

section \<open>Facts about the polling cycle\<close>

lemmas Start_defs =
  Start_def all_ok_start_env_def init_def ConfigureDevice_def OpenInterface_def
  SetupInterruptInEndpoint_def SetupInterruptOutEndpoint_def CreateHIDReportDescriptor_def
  StartInputPolling_def

lemmas ReadComplete_defs =
  ReadComplete_def process_read_def queue_next_read_def ParseInputReport_def
  sizeof_BigbenInputReport_def BIGBEN_REPORT_ID_INPUT_def

lemma started_ivars_eq:
  "started_ivars =
     \<lparr>interface = True, inputPipe = True, outputPipe = True, inputBuffer = True,
      outputBuffer = True, hidDescriptor = True, readAction = True, writeAction = True,
      isStarted = True, isPolling = True, deviceConnected = True,
      lastReport = zero_report, hasLastReport = False,
      reportsReceived = 0, reportErrors = 0, outputReportsSent = 0\<rparr>"
  by (simp add: started_ivars_def Start_defs)

text \<open>\<open>Start\<close> succeeds in that system, and arms the first read.\<close>

lemma Start_all_ok:
  "Start all_ok_start_env init = (kIOReturnSuccess, started_ivars, [AsyncIO_read])"
  unfolding started_ivars_eq by (simp add: Start_defs)

lemma stopped_ivars_eq:
  "stopped_ivars =
     \<lparr>interface = False, inputPipe = False, outputPipe = False, inputBuffer = False,
      outputBuffer = False, hidDescriptor = False, readAction = False, writeAction = False,
      isStarted = False, isPolling = False, deviceConnected = False,
      lastReport = zero_report, hasLastReport = False,
      reportsReceived = 0, reportErrors = 0, outputReportsSent = 0\<rparr>"
  by (simp add: stopped_ivars_def Stop_def StopInputPolling_def CleanupResources_def
      started_ivars_eq)

text \<open>\<open>Stop\<close> on the started driver aborts the pending read and leaves no object behind.\<close>

lemma Stop_started:
  "Stop kIOReturnSuccess started_ivars = (kIOReturnSuccess, stopped_ivars, [Abort_read])"
  unfolding stopped_ivars_eq
  by (simp add: Stop_def StopInputPolling_def CleanupResources_def started_ivars_eq)

text \<open>
  \<open>StartInputPolling\<close> is the only place that sets \<open>isPolling\<close>, and it does so behind
  its null checks: a channel it has put into polling has its pipe, buffer and action.
\<close>

lemma StartInputPolling_polling_has_pipe:
  assumes "StartInputPolling asyncio s = (ret, s', calls)"
    and "\<not> isPolling s" and "isPolling s'"
  shows "inputPipe s' \<and> inputBuffer s' \<and> readAction s'"
  using assms by (auto simp: StartInputPolling_def split: if_splits)

section \<open>The claims\<close>

subsection \<open>C1: a read completion with status aborted or not responding\<close>

text \<open>
  C1 as stated fails. On the driver that \<open>init\<close> and a successful \<open>Start\<close> produce, a
  completion with status aborted returns the same instance variables, so \<open>isPolling\<close>
  and \<open>deviceConnected\<close> are still true; and a completion forced on that state
  afterwards (success, 64 bytes, identifier 1) is not ignored: it is cached, counted,
  handed to the HID layer, and followed by a new read.
\<close>

theorem ReadComplete_aborted_not_stopped:
  "ReadComplete (sample_read_env 1) kIOReturnAborted 0 started_ivars = Inr (started_ivars, [])
   \<and> isPolling started_ivars
   \<and> deviceConnected started_ivars
   \<and> ReadComplete (sample_read_env 1) kIOReturnSuccess 64 started_ivars
       = Inr (started_ivars\<lparr>lastReport := neutral_input 1, hasLastReport := True,
                             reportsReceived := 1\<rparr>,
              [handleReport 42 (neutral_input 1) 64, AsyncIO_read])"
  by (simp add: ReadComplete_defs started_ivars_eq sample_read_env_def neutral_input_def)

text \<open>
  C1, amended: for every state of the channel (a started one included), a read
  completion with status aborted or device-not-responding returns at once: no read is
  armed, nothing is handed to the HID layer, and no instance variable changes, so
  \<open>isPolling\<close> and \<open>deviceConnected\<close> keep the values they had.
\<close>

theorem ReadComplete_aborted_returns_unchanged:
  "status = kIOReturnAborted \<or> status = kIOReturnNotResponding \<Longrightarrow>
   ReadComplete env status actualByteCount s = Inr (s, [])"
  by (auto simp: ReadComplete_def)

theorem ReadComplete_aborted_returns_unchanged_witness:
  "ReadComplete (sample_read_env 1) kIOReturnAborted 0 started_ivars = Inr (started_ivars, [])"
  using ReadComplete_aborted_returns_unchanged
          [of kIOReturnAborted "sample_read_env 1" 0 started_ivars]
  by simp

subsection \<open>C2: a full-size report with the wrong identifier\<close>

text \<open>
  C2 at a failing input: the started driver receives a successful 64-byte completion
  whose buffer carries report identifier 2. \<open>ParseInputReport\<close> returns at its
  identifier check, so nothing is cached; \<open>ReadComplete\<close> nevertheless increments
  \<open>reportsReceived\<close> from 0 to 1 and hands the buffer to the HID layer before it arms
  the next read. The claim asks for the report to be dropped.
\<close>

theorem ReadComplete_mismatched_id_counted_and_forwarded:
  "reportsReceived started_ivars = 0
   \<and> \<not> hasLastReport started_ivars
   \<and> ReadComplete (sample_read_env 2) kIOReturnSuccess 64 started_ivars
       = Inr (started_ivars\<lparr>reportsReceived := 1\<rparr>,
              [handleReport 42 (neutral_input 2) 64, AsyncIO_read])"
  by (simp add: ReadComplete_defs started_ivars_eq sample_read_env_def neutral_input_def)

subsection \<open>C3: stick deadzone 10, axis value 200\<close>

text \<open>C3 as stated fails: the value is not 197.\<close>

theorem applyDeadzone_200_10_is_not_197:
  "applyDeadzone 200 10 \<noteq> 197"
  by (simp add: applyDeadzone_def scale_offset_def int16_t_def c_div_def translator_consts)

text \<open>
  C3, amended: with stick deadzone 10 and axis value 200, \<open>applyDeadzone\<close> returns a
  value strictly greater than 128 and at most 255 that equals
  \<open>((200 - 128 - 10) * 127 / 117) + 128\<close> under C's integer division, that is 195.
\<close>

theorem applyDeadzone_200_10:
  "applyDeadzone 200 10 > 128 \<and> applyDeadzone 200 10 \<le> 255
   \<and> uint (applyDeadzone 200 10) = c_div ((200 - 128 - 10) * 127) 117 + 128
   \<and> applyDeadzone 200 10 = 195"
  by (simp add: applyDeadzone_def scale_offset_def int16_t_def c_div_def translator_consts)

theorem applyDeadzone_200_10_witness:
  "uint (applyDeadzone 200 10) = 195"
  using applyDeadzone_200_10 by simp

subsection \<open>C4: completions delivered after \<open>Stop\<close>\<close>

text \<open>
  C4 at failing inputs. \<open>Stop\<close> on the started driver clears the flags, aborts the
  pending read and releases every object. \<open>ReadComplete\<close> has no test of the stopped
  state before it processes a completion (\<open>isPolling && deviceConnected\<close> guards only
  the re-arming), so a completion delivered afterwards is not ignored:
  with status success and 64 bytes it calls \<open>Map\<close> through the input buffer pointer
  that \<open>CleanupResources\<close> has set to \<open>nullptr\<close>; with an error status other than
  aborted or not responding, or with status success and 10 bytes, it raises
  \<open>reportErrors\<close> from 0 to 1. The claim asks for every late completion to leave the
  counters, the cache and the flags unchanged.
\<close>

theorem late_completion_after_Stop_not_ignored:
  "Stop kIOReturnSuccess started_ivars = (kIOReturnSuccess, stopped_ivars, [Abort_read])
   \<and> \<not> isPolling stopped_ivars
   \<and> reportErrors stopped_ivars = 0
   \<and> ReadComplete (sample_read_env 1) kIOReturnSuccess 64 stopped_ivars
       = Inl NullPointerDereference
   \<and> ReadComplete (sample_read_env 1) (kIOReturnOther 0xE00002BC) 0 stopped_ivars
       = Inr (stopped_ivars\<lparr>reportErrors := 1\<rparr>, [])
   \<and> ReadComplete (sample_read_env 1) kIOReturnSuccess 10 stopped_ivars
       = Inr (stopped_ivars\<lparr>reportErrors := 1\<rparr>, [])"
  by (simp add: ReadComplete_defs Stop_def StopInputPolling_def CleanupResources_def
      started_ivars_eq stopped_ivars_eq sample_read_env_def neutral_input_def)

subsection \<open>C5: a short read\<close>

text \<open>
  C5: for every read completion with status success and fewer than 64 bytes, on a
  channel that is polling and connected, the error counter goes up by one (a
  \<open>uint64_t\<close> increment), the received counter stays, no report is handed to the HID
  layer, and exactly one new read is requested from the input pipe; when the pipe
  accepts it the channel is still polling and connected. The handler returns this
  result whenever the channel has its input pipe, which every channel that
  \<open>StartInputPolling\<close> has put into polling has.
\<close>

theorem ReadComplete_short_read:
  assumes "unat actualByteCount < 64" and "isPolling s" and "deviceConnected s"
  shows "(inputPipe s \<longrightarrow>
            (\<exists>s' calls. ReadComplete env kIOReturnSuccess actualByteCount s = Inr (s', calls)))
         \<and> (\<forall>s' calls.
               ReadComplete env kIOReturnSuccess actualByteCount s = Inr (s', calls) \<longrightarrow>
                 reportErrors s' = reportErrors s + 1
                 \<and> reportsReceived s' = reportsReceived s
                 \<and> calls = [AsyncIO_read]
                 \<and> (\<forall>t b l. handleReport t b l \<notin> set calls)
                 \<and> (AsyncIO_ret env = kIOReturnSuccess \<longrightarrow> isPolling s' \<and> deviceConnected s'))"
  using assms
  by (auto simp: ReadComplete_def process_read_def queue_next_read_def
      sizeof_BigbenInputReport_def split: if_splits)

theorem ReadComplete_short_read_witness:
  "unat (10 :: uint32_t) < 64 \<and> isPolling started_ivars \<and> deviceConnected started_ivars
   \<and> inputPipe started_ivars
   \<and> ReadComplete (sample_read_env 1) kIOReturnSuccess 10 started_ivars
       = Inr (started_ivars\<lparr>reportErrors := 1\<rparr>, [AsyncIO_read])"
  using ReadComplete_short_read [of 10 started_ivars "sample_read_env 1"]
  by (simp add: ReadComplete_defs started_ivars_eq sample_read_env_def)

subsection \<open>C6: the rumble frame\<close>

text \<open>
  C6: for every weak intensity \<open>weak\<close> (the \<open>rightMotor\<close> argument) and strong intensity
  \<open>strong\<close> (the \<open>leftMotor\<close> argument), the frame that \<open>sendRumbleToUSB\<close> builds is the
  8 bytes: identifier 0x02, 0x08, weak-motor flag 1 if \<open>weak\<close> is nonzero and 0
  otherwise, \<open>strong\<close> unchanged, duration 0xFF, and three zero bytes. The frame is
  built whenever a USB driver is attached, and only then.
\<close>

theorem sendRumbleToUSB_frame:
  "map_option BigbenRumbleReport_bytes (snd (sendRumbleToUSB usbDriver strong weak))
     = (if usbDriver
        then Some [0x02, 0x08, if weak \<noteq> 0 then 1 else 0, strong, 0xFF, 0, 0, 0]
        else None)"
  by (simp add: sendRumbleToUSB_def BigbenRumbleReport_bytes_def BIGBEN_REPORT_ID_RUMBLE_def
      word_greater_zero_iff)

theorem sendRumbleToUSB_frame_witness:
  "map_option BigbenRumbleReport_bytes (snd (sendRumbleToUSB True 200 77))
     = Some [0x02, 0x08, 1, 200, 0xFF, 0, 0, 0]"
  using sendRumbleToUSB_frame [of True 200 77] by simp

subsection \<open>C7: the stick deadzone keeps the physical extremes\<close>

text \<open>
  C7: for every stick deadzone \<open>dz\<close> from 0 to 127, \<open>applyDeadzone 255 dz = 255\<close> and
  \<open>applyDeadzone 0 dz = 0\<close>.
\<close>

theorem applyDeadzone_preserves_extremes:
  "dz \<le> 127 \<Longrightarrow> applyDeadzone 255 dz = 255 \<and> applyDeadzone 0 dz = 0"
  by (simp add: applyDeadzone_max applyDeadzone_min)

theorem applyDeadzone_preserves_extremes_witness:
  "(12 :: uint8_t) \<le> 127 \<and> applyDeadzone 255 12 = 255 \<and> applyDeadzone 0 12 = 0"
  using applyDeadzone_preserves_extremes [of 12] by simp

subsection \<open>C8: the button mask\<close>

text \<open>
  C8: for every 16-bit button value \<open>b\<close>, \<open>translateButtons b = b AND 0x1FFF\<close>: bit \<open>n\<close>
  of the result is set exactly when \<open>n < 13\<close> and bit \<open>n\<close> of \<open>b\<close> is set, so the low 13
  bits pass through and bits 13 to 15 are cleared; and
  \<open>translateButtons 0xFFFF = 0x1FFF\<close>.
\<close>

theorem translateButtons_mask:
  "translateButtons b = b AND 0x1FFF
   \<and> (\<forall>n. bit (translateButtons b) n \<longleftrightarrow> n < 13 \<and> bit b n)
   \<and> translateButtons 0xFFFF = 0x1FFF"
proof -
  have m: "(0x1FFF :: uint16_t) = mask 13"
    by (simp add: mask_eq_exp_minus_1)
  have "bit (b AND 0x1FFF) n \<longleftrightarrow> n < 13 \<and> bit b n" for n
    unfolding m by (auto simp: bit_and_iff bit_mask_iff)
  then show ?thesis
    by (simp add: translateButtons_def)
qed

theorem translateButtons_mask_witness:
  "translateButtons 0xE005 = 0x0005 \<and> translateButtons 0xFFFF = 0x1FFF"
  using translateButtons_mask [of "0xE005"] by simp

subsection \<open>C9: D-pad to hat switch\<close>

text \<open>
  C9: for every 8-bit direction code \<open>d\<close>, \<open>translateDPadToHat d = d\<close> when \<open>d \<le> 8\<close>, and
  \<open>translateDPadToHat d = 8\<close> when \<open>d > 8\<close>.
\<close>

theorem translateDPadToHat_identity_or_neutral:
  "(d \<le> 8 \<longrightarrow> translateDPadToHat d = d) \<and> (8 < d \<longrightarrow> translateDPadToHat d = 8)"
  by (auto simp: translateDPadToHat_def translator_consts)

theorem translateDPadToHat_identity_or_neutral_witness:
  "(2 :: uint8_t) \<le> 8 \<and> translateDPadToHat 2 = 2
   \<and> (8 :: uint8_t) < 200 \<and> translateDPadToHat 200 = 8"
  using translateDPadToHat_identity_or_neutral [of 2]
        translateDPadToHat_identity_or_neutral [of 200]
  by simp

subsection \<open>C10: trigger deadzone 255\<close>

text \<open>
  C10: with trigger deadzone 255, \<open>applyTriggerDeadzone\<close> returns 0 for every value
  below 255 and returns 255 unchanged for the value 255; the rescaling branch, guarded
  by \<open>deadzone > 0 && deadzone < 255\<close>, is not taken.
\<close>

theorem applyTriggerDeadzone_255:
  "(v < 255 \<longrightarrow> applyTriggerDeadzone v 255 = 0) \<and> applyTriggerDeadzone 255 255 = 255"
  by (simp add: applyTriggerDeadzone_def word_less_def)

theorem applyTriggerDeadzone_255_witness:
  "(100 :: uint8_t) < 255 \<and> applyTriggerDeadzone 100 255 = 0
   \<and> applyTriggerDeadzone 255 255 = 255"
  using applyTriggerDeadzone_255 [of 100] by simp

end
